theory Spec2Isabelle
  imports Complex_Main "HOL-Library.Word"
begin

section \<open>Configuration (backend/core/config.py)\<close>

text \<open>
  Only the three score thresholds of \<^verbatim>\<open>Settings\<close> are read by the code modelled here.
  Python floats are modelled as exact reals; every claim below is about comparisons against
  thresholds and sums of a few decimal constants, so no property depends on binary rounding.
\<close>

record settings =
  threat_threshold_low :: real
  threat_threshold_medium :: real
  threat_threshold_high :: real

definition default_settings :: settings where
  "default_settings =
     \<lparr>threat_threshold_low = 3/10, threat_threshold_medium = 6/10, threat_threshold_high = 85/100\<rparr>"

section \<open>Threat tiers and recommended actions (backend/services/threat_analyzer.py)\<close>

text \<open>The five strings returned by \<^verbatim>\<open>_get_threat_level\<close> (the enum \<^verbatim>\<open>ThreatLevel\<close>).\<close>

datatype threat_level = Safe | Low | Medium | High | Critical

text \<open>The four strings returned by \<^verbatim>\<open>_get_recommended_action\<close>.\<close>

datatype action = ContinueMonitoring | IncreaseMonitoring | AlertUser | HandoffToAi

definition get_threat_level :: "settings \<Rightarrow> real \<Rightarrow> threat_level" where
  "get_threat_level st score =
     (if score \<ge> threat_threshold_high st then Critical
      else if score \<ge> threat_threshold_medium st then High
      else if score \<ge> threat_threshold_low st then Medium
      else if score > 1/10 then Low
      else Safe)"

definition get_recommended_action :: "settings \<Rightarrow> real \<Rightarrow> threat_level \<Rightarrow> action" where
  "get_recommended_action st score level =
     (if score \<ge> threat_threshold_high st then HandoffToAi
      else if score \<ge> threat_threshold_medium st then AlertUser
      else if score \<ge> threat_threshold_low st then IncreaseMonitoring
      else ContinueMonitoring)"

text \<open>
  The tier mapping as the specification words it: below low is safe, [low, medium) is low,
  [medium, high) is medium, the high threshold itself is high and anything above it critical.
\<close>

definition spec_tier :: "settings \<Rightarrow> real \<Rightarrow> threat_level" where
  "spec_tier st s =
     (if s < threat_threshold_low st then Safe
      else if s < threat_threshold_medium st then Low
      else if s < threat_threshold_high st then Medium
      else if s = threat_threshold_high st then High
      else Critical)"

section \<open>String operations used by the scorer\<close>

text \<open>
  Transcripts are byte strings here; \<^verbatim>\<open>str.lower()\<close> and \<^verbatim>\<open>re.IGNORECASE\<close> are modelled on the
  ASCII letters, which is what every keyword of the source consists of.
\<close>

definition lower_char :: "char \<Rightarrow> char" where
  "lower_char c =
     (case map_of (zip ''ABCDEFGHIJKLMNOPQRSTUVWXYZ'' ''abcdefghijklmnopqrstuvwxyz'') c of
        Some d \<Rightarrow> d | None \<Rightarrow> c)"

definition lower :: "string \<Rightarrow> string" where
  "lower s = map lower_char s"

text \<open>Python's \<^verbatim>\<open>pattern in text\<close> on strings.\<close>

fun is_prefix :: "string \<Rightarrow> string \<Rightarrow> bool" where
  "is_prefix [] s = True"
| "is_prefix (a # w) [] = False"
| "is_prefix (a # w) (c # s) = (if a = c then is_prefix w s else False)"

fun contains :: "string \<Rightarrow> string \<Rightarrow> bool" where
  "contains p [] = (p = [])"
| "contains p (c # cs) = (if is_prefix p (c # cs) then True else contains p cs)"

text \<open>
  A compiled pattern \<^verbatim>\<open>re.compile('|'.join(re.escape(w) for w in words), re.IGNORECASE)\<close>
  tried at one position of the text: the first alternative, in list order, that matches there
  wins. Matching ignores case, so it is decided on the lowered words and the lowered text; the
  result is the length of the match.
\<close>

fun match_alt :: "string list \<Rightarrow> string \<Rightarrow> nat option" where
  "match_alt [] s = None"
| "match_alt (w # ws) s = (if is_prefix w s then Some (length w) else match_alt ws s)"

text \<open>
  \<^verbatim>\<open>pattern.findall(transcript)\<close>: leftmost non-overlapping matches, scanning left to right.
  The second argument is the lowered text, the third the text itself, walked in step; each
  match is returned as the text of the transcript, in its own case. All keywords of the source
  are non-empty, so a match consumes at least one character.
\<close>

fun findall_low :: "string list \<Rightarrow> string \<Rightarrow> string \<Rightarrow> string list" where
  "findall_low ws [] t = []"
| "findall_low ws (c # cs) t =
     (case match_alt ws (c # cs) of
        Some n \<Rightarrow> take n t # findall_low ws (drop (n - 1) cs) (drop n t)
      | None \<Rightarrow> findall_low ws cs (drop 1 t))"

definition findall :: "string list \<Rightarrow> string \<Rightarrow> string list" where
  "findall ws t = findall_low (map lower ws) (lower t) t"

text \<open>\<^verbatim>\<open>str.split()\<close>: maximal runs of non-whitespace characters.\<close>

definition is_space :: "char \<Rightarrow> bool" where
  "is_space c \<longleftrightarrow> c \<in> set [CHR '' '', CHR 0x09, CHR 0x0A, CHR 0x0B, CHR 0x0C, CHR 0x0D,
                              CHR 0x1C, CHR 0x1D, CHR 0x1E, CHR 0x1F]"

fun split_acc :: "string \<Rightarrow> string \<Rightarrow> string list" where
  "split_acc cur [] = (if cur = [] then [] else [rev cur])"
| "split_acc cur (c # cs) =
     (if is_space c then (if cur = [] then split_acc [] cs else rev cur # split_acc [] cs)
      else split_acc (c # cur) cs)"

definition split :: "string \<Rightarrow> string list" where
  "split s = split_acc [] s"

section \<open>Keyword layer (KeywordSpotter)\<close>

text \<open>\<^verbatim>\<open>ThreatAnalyzer.SCAM_KEYWORDS\<close>, in the dictionary's insertion order.\<close>

definition SCAM_KEYWORDS :: "(string \<times> string list) list" where
  "SCAM_KEYWORDS =
    [(''urgent'', [''immediate action required'', ''act now'', ''limited time'', ''urgent'',
        ''emergency'', ''last chance'', ''today only'', ''right now'']),
     (''financial'', [''bank account'', ''credit card'', ''debit card'', ''upi'', ''paytm'',
        ''google pay'', ''phonepe'', ''otp'', ''pin'', ''password'', ''cvv'', ''expiry date'',
        ''account number'', ''ifsc code'']),
     (''impersonation'', [''reserve bank of india'', ''rbi'', ''income tax department'',
        ''cyber crime'', ''police department'', ''cbi'', ''enforcement directorate'',
        ''customs department'', ''narcotics bureau'', ''your bank'', ''your insurance company'']),
     (''threats'', [''arrest warrant'', ''legal action'', ''court case'', ''fir'',
        ''police complaint'', ''account frozen'', ''account blocked'', ''sim card blocked'',
        ''pan card blocked'']),
     (''remote_access'', [''anydesk'', ''teamviewer'', ''quick support'', ''screen sharing'',
        ''remote access'', ''install app'', ''download software'']),
     (''verification'', [''kyc verification'', ''kyc update'', ''aadhaar verification'',
        ''pan verification'', ''document verification'', ''verify your identity'']),
     (''prize'', [''you have won'', ''lottery'', ''lucky draw'', ''prize money'', ''cash prize'',
        ''free gift'', ''congratulations''])]"

text \<open>The local table \<^verbatim>\<open>category_scores\<close> of \<^verbatim>\<open>KeywordSpotter.analyze\<close>.\<close>

definition category_scores :: "(string \<times> real) list" where
  "category_scores =
    [(''urgent'', 15/100), (''financial'', 20/100), (''impersonation'', 25/100),
     (''threats'', 25/100), (''remote_access'', 20/100), (''verification'', 15/100),
     (''prize'', 20/100)]"

text \<open>\<^verbatim>\<open>category_scores.get(category, 0.1)\<close>\<close>

definition category_score :: "string \<Rightarrow> real" where
  "category_score c = (case map_of category_scores c of Some w \<Rightarrow> w | None \<Rightarrow> 1/10)"

record keyword_result =
  kw_score :: real
  kw_matched :: "string list"
  kw_indicators :: "string list"

text \<open>
  The loop over the compiled patterns, as the list of categories that fired with their matches.
\<close>

fun category_hits :: "(string \<times> string list) list \<Rightarrow> string \<Rightarrow> (string \<times> string list) list" where
  "category_hits [] t = []"
| "category_hits ((cat, ws) # rest) t =
     (let ms = findall ws t
      in if ms = [] then category_hits rest t else (cat, ms) # category_hits rest t)"

text \<open>
  \<^verbatim>\<open>KeywordSpotter.analyze\<close>. The number of unique categories is the number of distinct
  indicator strings with their suffix removed, that is, of distinct category names that fired.
  \<^verbatim>\<open>list(set(matched_keywords))\<close> is the list without duplicates (its order is not fixed in
  Python; only membership is used below).
\<close>

definition keyword_analyze :: "(string \<times> string list) list \<Rightarrow> string \<Rightarrow> keyword_result" where
  "keyword_analyze dict t =
     (let hits = category_hits dict t;
          score = sum_list (map (\<lambda>(cat, ms). category_score cat * real (length ms)) hits);
          inds = map (\<lambda>(cat, ms). cat @ ''_keywords_detected'') hits;
          unique_categories = length (remdups (map fst hits))
      in \<lparr>kw_score = min 1 (if unique_categories \<ge> 2
                              then score + (1/10) * real unique_categories else score),
          kw_matched = remdups (concat (map snd hits)),
          kw_indicators = (if unique_categories \<ge> 2
                           then inds @ [''multiple_threat_categories''] else inds)\<rparr>)"

section \<open>Behavioral layer\<close>

definition BEHAVIORAL_FLAGS :: "(string \<times> string list) list" where
  "BEHAVIORAL_FLAGS =
    [(''high_pressure'', [''must'', ''immediately'', ''now'', ''urgent'', ''hurry'']),
     (''secrecy'', [''don't tell anyone'', ''keep it secret'', ''confidential'', ''don't discuss'']),
     (''isolation'', [''don't contact bank'', ''don't call police'', ''don't tell family'']),
     (''unprofessional'', [''sir/madam repeatedly'', ''heavy accent mismatch'',
        ''background noise''])]"

record behavior_result =
  bh_score :: real
  bh_flags :: "string list"

text \<open>One entry per (flag type, pattern) pair whose pattern occurs in the lowered transcript.\<close>

definition behavior_hits :: "string \<Rightarrow> string list" where
  "behavior_hits tlow =
     concat (map (\<lambda>(flag_type, patterns). map (\<lambda>p. flag_type) (filter (\<lambda>p. contains p tlow) patterns))
               BEHAVIORAL_FLAGS)"

definition analyze_behavior :: "string \<Rightarrow> behavior_result" where
  "analyze_behavior t =
     (let tlow = lower t;
          hits = behavior_hits tlow;
          words = split tlow;
          repetitive = (length words > 10
                        \<and> real (length (remdups words)) / real (length words) < 4/10)
      in \<lparr>bh_score = min 1 ((15/100) * real (length hits) + (if repetitive then 1/10 else 0)),
          bh_flags = remdups (if repetitive then hits @ [''repetitive_speech''] else hits)\<rparr>)"

section \<open>Classifier and audio layers\<close>

text \<open>
  The trained classifier is an external object. A loaded model is taken as a function from the
  transcript to the scam probability and whether the predicted class is 1; \<^verbatim>\<open>None\<close> for a
  transcript stands for an exception inside \<^verbatim>\<open>_ml_classify\<close>, which the source turns into
  score 0.0 with no indicators. The analyzer holds \<^verbatim>\<open>ml_model = None\<close> when no model file was
  found.
\<close>

type_synonym ml_model = "string \<Rightarrow> (real \<times> bool) option"

definition ml_classify :: "ml_model \<Rightarrow> string \<Rightarrow> real \<times> string list" where
  "ml_classify m t =
     (case m t of
        Some (scam_prob, is_scam) \<Rightarrow>
          (scam_prob, if is_scam then [''ml_classification_scam''] else [])
      | None \<Rightarrow> (0, []))"

text \<open>
  The audio feature dictionary, as an association list; only the two keys below are read.
\<close>

type_synonym features = "(string \<times> real) list"

definition analyze_audio_features :: "features \<Rightarrow> real" where
  "analyze_audio_features f =
     (let s1 = (case map_of f ''rms_energy'' of
                  Some energy \<Rightarrow> if energy > 5/10 then 1/10 else 0 | None \<Rightarrow> 0);
          s2 = (case map_of f ''zero_crossing_rate'' of
                  Some zcr \<Rightarrow> if zcr > 1/10 then 5/100 else 0 | None \<Rightarrow> 0)
      in min 1 (s1 + s2))"

section \<open>Score fusion (ThreatAnalyzer.analyze)\<close>

text \<open>
  \<^verbatim>\<open>round(x, 3)\<close>: to the nearest multiple of 0.001, ties to the even one.
\<close>

definition round_half_even :: "real \<Rightarrow> int" where
  "round_half_even x =
     (let f = \<lfloor>x\<rfloor>; d = x - of_int f
      in if d < 1/2 then f else if d > 1/2 then f + 1 else if even f then f else f + 1)"

definition round3 :: "real \<Rightarrow> real" where
  "round3 x = of_int (round_half_even (x * 1000)) / 1000"

text \<open>
  The weights are cut to the NUMBER of scores collected
  (\<^verbatim>\<open>[0.4, 0.2, 0.3, 0.1][:len(scores)]\<close>), renormalised, and paired with the scores by
  position.
\<close>

definition fuse :: "real list \<Rightarrow> real" where
  "fuse scores =
     (if scores = [] then 0
      else (let weights = take (length scores) [4/10, 2/10, 3/10, 1/10];
                weights' = map (\<lambda>w. w / sum_list weights) weights
            in sum_list (map (\<lambda>(s, w). s * w) (zip scores weights'))))"

text \<open>
  The result dictionary. \<^verbatim>\<open>escalation_detected\<close> is a key that only \<^verbatim>\<open>analyze_realtime\<close> may
  add; \<^verbatim>\<open>False\<close> stands for its absence. The field \<^verbatim>\<open>keywords_matched\<close> is the key
  \<^verbatim>\<open>keywords\<close>. The three lists are \<^verbatim>\<open>list(set(...))\<close> in the source:
  duplicate-free, in an order Python does not fix.
\<close>

record analysis =
  threat_score :: real
  threat_level :: threat_level
  confidence :: real
  indicators :: "string list"
  keywords_matched :: "string list"
  behavioral_flags :: "string list"
  recommended_action :: action
  escalation_detected :: bool

text \<open>Python truthiness of an optional string and of an optional dictionary.\<close>

definition truthy :: "'a list option \<Rightarrow> bool" where
  "truthy x = (case x of None \<Rightarrow> False | Some v \<Rightarrow> v \<noteq> [])"

text \<open>The score lists of the four layers, each empty when its layer is skipped.\<close>

definition keyword_layer :: "string option \<Rightarrow> keyword_result option" where
  "keyword_layer transcript =
     (if truthy transcript then Some (keyword_analyze SCAM_KEYWORDS (the transcript)) else None)"

definition behavior_layer :: "string option \<Rightarrow> behavior_result option" where
  "behavior_layer transcript =
     (if truthy transcript then Some (analyze_behavior (the transcript)) else None)"

definition ml_layer :: "ml_model option \<Rightarrow> string option \<Rightarrow> (real \<times> string list) option" where
  "ml_layer ml transcript =
     (case ml of
        Some m \<Rightarrow> if truthy transcript then Some (ml_classify m (the transcript)) else None
      | None \<Rightarrow> None)"

definition audio_layer :: "features option \<Rightarrow> real option" where
  "audio_layer audio_features =
     (if truthy audio_features then Some (analyze_audio_features (the audio_features)) else None)"

definition opt_list :: "'a option \<Rightarrow> 'a list" where
  "opt_list x = (case x of None \<Rightarrow> [] | Some v \<Rightarrow> [v])"

definition analyze :: "settings \<Rightarrow> ml_model option \<Rightarrow> string option \<Rightarrow> features option \<Rightarrow> analysis" where
  "analyze st ml transcript audio_features =
     (let kw = keyword_layer transcript;
          bh = behavior_layer transcript;
          mlr = ml_layer ml transcript;
          au = audio_layer audio_features;
          scores = opt_list (map_option kw_score kw) @ opt_list (map_option bh_score bh)
                   @ opt_list (map_option fst mlr) @ opt_list au;
          inds = concat (opt_list (map_option kw_indicators kw))
                 @ concat (opt_list (map_option snd mlr));
          score = fuse scores;
          level = get_threat_level st score
      in \<lparr>threat_score = round3 score,
          threat_level = level,
          confidence = round3 (min 1 (real (length scores) * (25/100) + 5/10)),
          indicators = remdups inds,
          keywords_matched = remdups (concat (opt_list (map_option kw_matched kw))),
          behavioral_flags = remdups (concat (opt_list (map_option bh_flags bh))),
          recommended_action = get_recommended_action st score level,
          escalation_detected = False\<rparr>)"

section \<open>Per-call context and escalation (ThreatAnalyzer.analyze_realtime)\<close>

text \<open>\<^verbatim>\<open>deque(maxlen=n).append(x)\<close>: the oldest entries fall out.\<close>

definition deque_append :: "nat \<Rightarrow> 'a list \<Rightarrow> 'a \<Rightarrow> 'a list" where
  "deque_append n xs x = (let ys = xs @ [x] in drop (length ys - n) ys)"

text \<open>
  The context dictionary of one call (its \<^verbatim>\<open>start_time\<close> is not read by any code modelled
  here). \<^verbatim>\<open>keywords_seen\<close> is a set, kept as a duplicate-free list.
\<close>

record call_context =
  transcripts :: "string option list"
  threat_scores :: "real list"
  keywords_seen :: "string list"
  escalation_count :: nat

definition new_context :: call_context where
  "new_context = \<lparr>transcripts = [], threat_scores = [], keywords_seen = [], escalation_count = 0\<rparr>"

definition adjust_for_context :: "settings \<Rightarrow> real \<Rightarrow> call_context \<Rightarrow> real" where
  "adjust_for_context st score ctx =
     (let a1 = (if length (keywords_seen ctx) > 3 then score + 1/10 else score);
          a2 = (if length (threat_scores ctx) \<ge> 5
                   \<and> sum_list (threat_scores ctx) / real (length (threat_scores ctx))
                       > threat_threshold_medium st
                then a1 + 1/10 else a1)
      in min 1 a2)"

text \<open>\<^verbatim>\<open>list(context["threat_scores"])[-3:]\<close>\<close>

definition last3 :: "'a list \<Rightarrow> 'a list" where
  "last3 xs = drop (length xs - 3) xs"

definition escalating :: "settings \<Rightarrow> call_context \<Rightarrow> bool" where
  "escalating st ctx \<longleftrightarrow>
     length (threat_scores ctx) \<ge> 3
     \<and> list_all (\<lambda>s. s > threat_threshold_medium st) (last3 (threat_scores ctx))"

type_synonym call_contexts = "string \<rightharpoonup> call_context"

definition analyze_realtime ::
  "settings \<Rightarrow> ml_model option \<Rightarrow> call_contexts \<Rightarrow> string \<Rightarrow> string option \<Rightarrow> features option
     \<Rightarrow> analysis \<times> call_contexts" where
  "analyze_realtime st ml ctxs call_id transcript audio_features =
     (let ctx0 = (case ctxs call_id of None \<Rightarrow> new_context | Some c \<Rightarrow> c);
          ctx1 = ctx0\<lparr>transcripts := deque_append 20 (transcripts ctx0) transcript\<rparr>;
          result = analyze st ml transcript audio_features;
          ctx2 = ctx1\<lparr>threat_scores := deque_append 10 (threat_scores ctx1) (threat_score result),
                      keywords_seen := remdups (keywords_seen ctx1 @ keywords_matched result)\<rparr>;
          adjusted = adjust_for_context st (threat_score result) ctx2;
          result1 = result\<lparr>threat_score := round3 adjusted,
                            threat_level := get_threat_level st adjusted\<rparr>;
          result2 = (if escalating st ctx2
                     then result1\<lparr>escalation_detected := True, recommended_action := HandoffToAi\<rparr>
                     else result1)
      in (result2, ctxs(call_id \<mapsto> ctx2)))"

section \<open>Entity extraction and masking (backend/services/intelligence_extractor.py)\<close>

text \<open>\<^verbatim>\<open>re.sub(r'\D', '', value)\<close> and the slice \<^verbatim>\<open>s[-n:]\<close> for a positive \<^verbatim>\<open>n\<close>.\<close>

definition is_digit :: "char \<Rightarrow> bool" where
  "is_digit c \<longleftrightarrow> c \<in> set ''0123456789''"

definition digits_only :: "string \<Rightarrow> string" where
  "digits_only v = filter is_digit v"

definition last_n :: "nat \<Rightarrow> string \<Rightarrow> string" where
  "last_n n v = drop (length v - n) v"

definition mask_sensitive :: "string \<Rightarrow> string \<Rightarrow> string" where
  "mask_sensitive entity_type v =
     (if entity_type = ''aadhaar'' then
        (let digits = digits_only v
         in if length digits \<ge> 4 then ''XXXX-XXXX-'' @ last_n 4 digits else ''XXXX-XXXX-XXXX'')
      else if entity_type = ''pan'' then
        (if length v \<ge> 4 then take 2 v @ ''XXXX'' @ last_n 2 v else ''XXXXX0000X'')
      else if entity_type = ''credit_card'' then
        (let digits = digits_only v
         in if length digits \<ge> 4 then ''XXXX-XXXX-XXXX-'' @ last_n 4 digits
            else ''XXXX-XXXX-XXXX-XXXX'')
      else if entity_type = ''bank_account'' then
        (if length v \<ge> 4 then ''XXXXXX'' @ last_n 4 v else ''XXXXXXXX'')
      else if entity_type = ''otp'' then ''XXXX''
      else if entity_type = ''cvv'' then ''XXX''
      else v)"

text \<open>
  One regular-expression match of \<^verbatim>\<open>extract\<close>'s inner loop, after \<^verbatim>\<open>_calculate_confidence\<close>:
  the pattern's entity type, the matched text, its confidence, the context window and the
  position. The pattern matching itself is the \<^verbatim>\<open>re\<close> library's; the loop receives its matches
  in the order the source visits them.
\<close>

record candidate =
  cand_type :: string
  cand_value :: string
  cand_confidence :: real
  cand_context :: string
  cand_position :: nat

text \<open>The dataclass \<^verbatim>\<open>ExtractedEntity\<close>; \<^verbatim>\<open>ent_value\<close> is its field \<^verbatim>\<open>value\<close>.\<close>

record extracted_entity =
  entity_type :: string
  ent_value :: string
  ent_confidence :: real
  ent_context :: string
  ent_position :: nat
  verified :: bool

definition to_entity :: "candidate \<Rightarrow> extracted_entity" where
  "to_entity c =
     \<lparr>entity_type = cand_type c,
      ent_value = mask_sensitive (cand_type c) (cand_value c),
      ent_confidence = cand_confidence c,
      ent_context = cand_context c,
      ent_position = cand_position c,
      verified = False\<rparr>"

fun deduplicate_from :: "(string \<times> string) list \<Rightarrow> extracted_entity list \<Rightarrow> extracted_entity list" where
  "deduplicate_from seen [] = []"
| "deduplicate_from seen (e # es) =
     (let key = (entity_type e, lower (ent_value e))
      in if key \<in> set seen then deduplicate_from seen es
         else e # deduplicate_from (key # seen) es)"

definition deduplicate :: "extracted_entity list \<Rightarrow> extracted_entity list" where
  "deduplicate es = deduplicate_from [] es"

text \<open>\<^verbatim>\<open>IntelligenceExtractor.extract\<close>, from the falsy-transcript guard to the result.\<close>

definition extract_entities :: "string option \<Rightarrow> candidate list \<Rightarrow> extracted_entity list" where
  "extract_entities transcript cands =
     (if \<not> truthy transcript then []
      else deduplicate (map to_entity (filter (\<lambda>c. \<not> cand_confidence c < 3/10) cands)))"

section \<open>Decoy engagement (backend/services/bait_agent.py)\<close>

text \<open>The four strings stored in \<^verbatim>\<open>engagement_stage\<close>.\<close>

datatype stage = Initial | BuildingTrust | Extracting | Terminating

definition stage_rank :: "stage \<Rightarrow> nat" where
  "stage_rank s = (case s of Initial \<Rightarrow> 0 | BuildingTrust \<Rightarrow> 1 | Extracting \<Rightarrow> 2 | Terminating \<Rightarrow> 3)"

text \<open>
  The dataclass \<^verbatim>\<open>ConversationState\<close> without its timestamps and the unused patience level.
  A history entry is (speaker, text).
\<close>

record conversation_state =
  persona :: string
  transcript_history :: "(string \<times> string option) list"
  intelligence_extracted :: "extracted_entity list"
  engagement_stage :: stage
  total_responses :: nat

definition PERSONAS :: "string list" where
  "PERSONAS = [''confused_senior'', ''cautious_professional'', ''trusting_homemaker'']"

definition new_conversation :: "string \<Rightarrow> conversation_state" where
  "new_conversation persona_key =
     \<lparr>persona = persona_key, transcript_history = [], intelligence_extracted = [],
      engagement_stage = Initial, total_responses = 0\<rparr>"

definition update_engagement_stage :: "conversation_state \<Rightarrow> conversation_state" where
  "update_engagement_stage state =
     (if total_responses state < 3 then state\<lparr>engagement_stage := Initial\<rparr>
      else if total_responses state < 8 then state\<lparr>engagement_stage := BuildingTrust\<rparr>
      else if total_responses state < 15 then state\<lparr>engagement_stage := Extracting\<rparr>
      else state\<lparr>engagement_stage := Terminating\<rparr>)"

text \<open>The stage table as the specification words it.\<close>

definition spec_stage :: "nat \<Rightarrow> stage" where
  "spec_stage turns =
     (if turns \<le> 2 then Initial
      else if 3 \<le> turns \<and> turns \<le> 7 then BuildingTrust
      else if 8 \<le> turns \<and> turns \<le> 14 then Extracting
      else Terminating)"

type_synonym engagements = "string \<rightharpoonup> conversation_state"

text \<open>
  \<^verbatim>\<open>start_engagement\<close>: \<^verbatim>\<open>persona or settings.bait_agent_persona\<close>, replaced by
  \<^verbatim>\<open>confused_senior\<close> when unknown; a fresh state overwrites whatever the call id held.
\<close>

definition start_engagement :: "string \<Rightarrow> engagements \<Rightarrow> string \<Rightarrow> string option \<Rightarrow> engagements" where
  "start_engagement default_persona eng call_id persona_opt =
     (let persona_key = (if truthy persona_opt then the persona_opt else default_persona);
          persona_key' = (if persona_key \<in> set PERSONAS then persona_key else ''confused_senior'')
      in eng(call_id \<mapsto> new_conversation persona_key'))"

datatype bait_error = EngagementNotFound | AttributeError

text \<open>
  \<^verbatim>\<open>process_caller_input\<close>. The reply text is drawn with \<^verbatim>\<open>random.choice\<close> from a pool of
  canned replies and is taken as a parameter, as are the extractor's pattern matches for the
  transcript. A transcript of \<^verbatim>\<open>None\<close> (the transcriber's failure value) makes
  \<^verbatim>\<open>_generate_response\<close> raise on \<^verbatim>\<open>scammer_input.lower()\<close>, after the counter, the history
  and the stage were written. The returned value is the error, or the reply, the entities of
  this turn and the stage.
\<close>

definition process_caller_input ::
  "engagements \<Rightarrow> string \<Rightarrow> string option \<Rightarrow> candidate list \<Rightarrow> string
     \<Rightarrow> (bait_error + string \<times> extracted_entity list \<times> stage) \<times> engagements" where
  "process_caller_input eng call_id transcript cands reply =
     (case eng call_id of
        None \<Rightarrow> (Inl EngagementNotFound, eng)
      | Some state \<Rightarrow>
          (let s1 = state\<lparr>total_responses := total_responses state + 1\<rparr>;
               s2 = s1\<lparr>transcript_history := transcript_history s1 @ [(''scammer'', transcript)]\<rparr>;
               intelligence = extract_entities transcript cands;
               s3 = s2\<lparr>intelligence_extracted := intelligence_extracted s2 @ intelligence\<rparr>;
               s4 = update_engagement_stage s3
           in case transcript of
                None \<Rightarrow> (Inl AttributeError, eng(call_id \<mapsto> s4))
              | Some t \<Rightarrow>
                  (let s5 = s4\<lparr>transcript_history := transcript_history s4 @ [(''agent'', Some reply)]\<rparr>
                   in (Inr (reply, intelligence, engagement_stage s5), eng(call_id \<mapsto> s5)))))"

definition terminate_engagement :: "engagements \<Rightarrow> string \<Rightarrow> engagements" where
  "terminate_engagement eng call_id = eng(call_id := None)"

text \<open>The calls that reach the agent, and the agent run over a sequence of them.\<close>

datatype bait_event =
    Start string "string option"
  | CallerInput string "string option" "candidate list" string
  | Terminate string
  | Cleanup

fun bait_step :: "string \<Rightarrow> engagements \<Rightarrow> bait_event \<Rightarrow> engagements" where
  "bait_step dp eng (Start call_id persona_opt) = start_engagement dp eng call_id persona_opt"
| "bait_step dp eng (CallerInput call_id transcript cands reply) =
     snd (process_caller_input eng call_id transcript cands reply)"
| "bait_step dp eng (Terminate call_id) = terminate_engagement eng call_id"
| "bait_step dp eng Cleanup = Map.empty"

fun bait_run :: "string \<Rightarrow> engagements \<Rightarrow> bait_event list \<Rightarrow> engagements" where
  "bait_run dp eng [] = eng"
| "bait_run dp eng (e # es) = bait_run dp (bait_step dp eng e) es"

text \<open>An event that ends the engagement of a call id or replaces it by a new one.\<close>

fun ends_engagement :: "string \<Rightarrow> bait_event \<Rightarrow> bool" where
  "ends_engagement cid (Start call_id persona_opt) = (call_id = cid)"
| "ends_engagement cid (Terminate call_id) = (call_id = cid)"
| "ends_engagement cid Cleanup = True"
| "ends_engagement cid (CallerInput call_id transcript cands reply) = False"

section \<open>Audio gate (backend/services/audio_processor.py)\<close>

text \<open>
  A chunk is the decoded array of 16-bit samples (\<^verbatim>\<open>np.frombuffer(..., dtype=np.int16)\<close>);
  \<^verbatim>\<open>None\<close> stands for audio data that cannot be decoded. The voice-activity engine is an
  external object: when installed, it maps a frame to a decision, or raises (\<^verbatim>\<open>None\<close>).
\<close>

type_synonym sample = "16 word"

type_synonym vad_engine = "sample list \<Rightarrow> bool option"

record vad_result =
  is_speech :: bool
  speech_duration_ms :: nat
  speech_ratio :: "real option"
  features :: features

datatype py_exn = DecodeError | ValueError

definition audio_float :: "sample \<Rightarrow> real" where
  "audio_float x = real_of_int (sint x) / 32768"

definition mean :: "real list \<Rightarrow> real" where
  "mean xs = sum_list xs / real (length xs)"

definition rms :: "sample list \<Rightarrow> real" where
  "rms arr = sqrt (mean (map (\<lambda>x. (audio_float x)\<^sup>2) arr))"

text \<open>
  The frames visited by \<^verbatim>\<open>for i in range(0, len(audio_array) - frame_size, frame_size)\<close>:
  a frame is taken while strictly more than \<^verbatim>\<open>frame_size\<close> samples remain. A zero frame size
  never reaches the loop (\<^verbatim>\<open>range\<close> raises on a zero step).
\<close>

function vad_frames :: "nat \<Rightarrow> 'a list \<Rightarrow> 'a list list" where
  "vad_frames frame_size xs =
     (if 0 < frame_size \<and> frame_size < length xs
      then take frame_size xs # vad_frames frame_size (drop frame_size xs)
      else [])"
  by pat_completeness auto
termination
  by (relation "measure (\<lambda>(n, xs). length xs)") auto

text \<open>The pair (speech_frames, total_frames) after the loop; a raising frame counts for neither.\<close>

fun count_speech :: "vad_engine \<Rightarrow> sample list list \<Rightarrow> nat \<times> nat" where
  "count_speech v [] = (0, 0)"
| "count_speech v (f # fs) =
     (let (sp, tot) = count_speech v fs
      in case v f of
           Some True \<Rightarrow> (sp + 1, tot + 1)
         | Some False \<Rightarrow> (sp, tot + 1)
         | None \<Rightarrow> (sp, tot))"

text \<open>
  \<^verbatim>\<open>_extract_features\<close>, restricted to the keys the scorer reads and the duration. On an
  empty array NumPy yields NaN for the energy, and on fewer than two samples NaN for the
  zero-crossing rate; every comparison with NaN is false, which is what an absent key gives.
  A zero sample rate raises on the first assignment and leaves the dictionary empty.
\<close>

definition zero_crossing_rate :: "real list \<Rightarrow> real" where
  "zero_crossing_rate xs =
     real (length (filter (\<lambda>(a, b). sgn b - sgn a \<noteq> 0) (zip xs (drop 1 xs))))
       / real (length xs - 1)"

definition extract_features :: "sample list \<Rightarrow> nat \<Rightarrow> features" where
  "extract_features arr sample_rate =
     (if sample_rate = 0 then []
      else [(''duration'', real (length arr) / real sample_rate)]
           @ (if arr = [] then [] else [(''rms_energy'', rms arr)])
           @ (if length arr < 2 then []
              else [(''zero_crossing_rate'', zero_crossing_rate (map audio_float arr))]))"

text \<open>The body of the \<^verbatim>\<open>try\<close> block of \<^verbatim>\<open>detect_voice_activity\<close>.\<close>

definition detect_inner :: "vad_engine option \<Rightarrow> nat \<Rightarrow> sample list option \<Rightarrow> py_exn + vad_result" where
  "detect_inner vad sample_rate audio =
     (case audio of
        None \<Rightarrow> Inl DecodeError
      | Some arr \<Rightarrow>
          (let frame_size = (sample_rate * 30) div 1000
           in if vad \<noteq> None \<and> length arr > 0 \<and> frame_size = 0 then Inl ValueError
              else
                (let (speech_frames, total_frames) =
                       (if vad \<noteq> None \<and> length arr > 0
                        then count_speech (the vad) (vad_frames frame_size arr) else (0, 0));
                     speech =
                       (if vad \<noteq> None \<and> length arr > 0 then speech_frames > 0
                        else arr \<noteq> [] \<and> rms arr > 1/100);
                     ratio = (if total_frames > 0
                              then real speech_frames / real total_frames else 0)
                 in Inr \<lparr>is_speech = (speech \<or> ratio > 3/10),
                         speech_duration_ms = speech_frames * 30,
                         speech_ratio = Some ratio,
                         features = extract_features arr sample_rate\<rparr>)))"

text \<open>\<^verbatim>\<open>detect_voice_activity\<close>: every exception ends in the fixed non-speech result.\<close>

definition detect_voice_activity :: "vad_engine option \<Rightarrow> nat \<Rightarrow> sample list option \<Rightarrow> vad_result" where
  "detect_voice_activity vad sample_rate audio =
     (case detect_inner vad sample_rate audio of
        Inr r \<Rightarrow> r
      | Inl e \<Rightarrow> \<lparr>is_speech = False, speech_duration_ms = 0, speech_ratio = None, features = []\<rparr>)"

section \<open>The per-chunk pipeline (handle_audio_chunk in backend/api/main.py)\<close>

datatype call_status =
  Incoming | Connected | Monitoring | ThreatDetected | AiHandoff | Ended | Reported

text \<open>A session dictionary of the connection manager, without its two timestamps.\<close>

record session =
  audio_chunks_received :: nat
  session_threat_score :: real
  status :: call_status
  ai_handoff :: bool

text \<open>The three registries a chunk can touch.\<close>

record system =
  call_sessions :: "string \<rightharpoonup> session"
  call_contexts :: call_contexts
  active_engagements :: engagements

text \<open>
  What one run of the handler asks of its collaborators, in order: a transcription, messages
  to the client, and the evidence store.
\<close>

datatype effect =
    Transcribe string
  | SendAiResponse string "bait_error + string \<times> extracted_entity list \<times> stage"
  | SendThreatUpdate string real threat_level bool
  | BroadcastAlert string real
  | StoreAudioChunk string nat "string option" real
  | SendError string

text \<open>
  The collaborators and process-wide objects seen by one run: the voice-activity engine (if
  installed), the sample rate, the classifier (if loaded), whether the bait agent object exists,
  the transcriber's answer for the chunk, the extractor's pattern matches and the reply drawn
  for a transcript, and whether building or sending the threat update raises.
\<close>

record env =
  vad_engine :: "vad_engine option"
  audio_sample_rate :: nat
  ml_model :: "ml_model option"
  bait_agent_present :: bool
  transcribe :: "sample list option \<Rightarrow> string option"
  pattern_matches :: "string option \<Rightarrow> candidate list"
  drawn_reply :: "string option \<Rightarrow> string"
  update_raises :: bool

text \<open>\<^verbatim>\<open>ConnectionManager.update_session\<close> with the two keys the handler writes.\<close>

definition update_session :: "(string \<rightharpoonup> session) \<Rightarrow> string \<Rightarrow> real \<Rightarrow> call_status \<Rightarrow> (string \<rightharpoonup> session)" where
  "update_session sessions call_id score st =
     (case sessions call_id of
        None \<Rightarrow> sessions
      | Some s \<Rightarrow> sessions(call_id \<mapsto> s\<lparr>session_threat_score := score, status := st\<rparr>))"

text \<open>
  \<^verbatim>\<open>handle_audio_chunk\<close>, returning the new registries and the effects in order. The model
  \<^verbatim>\<open>RealTimeThreatUpdate\<close> requires a string transcript, so a \<^verbatim>\<open>None\<close> transcript raises there;
  every exception inside the handler ends in one error message to the client.
\<close>

definition handle_audio_chunk ::
  "env \<Rightarrow> settings \<Rightarrow> system \<Rightarrow> string \<Rightarrow> sample list option \<Rightarrow> nat \<Rightarrow> system \<times> effect list" where
  "handle_audio_chunk ev st sys call_id audio_data sequence =
     (case call_sessions sys call_id of
        None \<Rightarrow> (sys, [])
      | Some sess \<Rightarrow>
          (let vad_res = detect_voice_activity (vad_engine ev) (audio_sample_rate ev) audio_data
           in if \<not> is_speech vad_res then (sys, [])
              else
                (let transcript = transcribe ev audio_data
                 in if ai_handoff sess \<and> bait_agent_present ev then
                      (let (resp, eng') =
                             process_caller_input (active_engagements sys) call_id transcript
                               (pattern_matches ev transcript) (drawn_reply ev transcript);
                           sys' = sys\<lparr>active_engagements := eng'\<rparr>
                       in if resp = Inl AttributeError
                          then (sys', [Transcribe call_id, SendError call_id])
                          else (sys', [Transcribe call_id, SendAiResponse call_id resp]))
                    else
                      (let (res, ctxs') =
                             analyze_realtime st (ml_model ev) (call_contexts sys) call_id
                               transcript (Some (features vad_res));
                           score = threat_score res;
                           sys' = sys\<lparr>call_contexts := ctxs',
                                      call_sessions :=
                                        update_session (call_sessions sys) call_id score
                                          (if score > threat_threshold_medium st
                                           then ThreatDetected else Monitoring)\<rparr>
                       in if transcript = None \<or> update_raises ev
                          then (sys', [Transcribe call_id, SendError call_id])
                          else (sys',
                                [Transcribe call_id,
                                 SendThreatUpdate call_id score (threat_level res)
                                   (score > threat_threshold_high st)]
                                @ (if score > threat_threshold_high st
                                   then [BroadcastAlert call_id score] else [])
                                @ (if score > threat_threshold_low st
                                   then [StoreAudioChunk call_id sequence transcript score]
                                   else []))))))"

section \<open>The fusion rule of the specification, and example inputs\<close>

text \<open>
  The fusion as the specification words it: each layer carries its own weight (keyword 0.4,
  behavioral 0.2, classifier 0.3, audio 0.1); the weights of the layers present are
  renormalised to sum to one.
\<close>

definition spec_fuse :: "real option \<Rightarrow> real option \<Rightarrow> real option \<Rightarrow> real option \<Rightarrow> real" where
  "spec_fuse kw bh mlr au =
     (let present = (case kw of Some s \<Rightarrow> [(4/10, s)] | None \<Rightarrow> [])
                    @ (case bh of Some s \<Rightarrow> [(2/10, s)] | None \<Rightarrow> [])
                    @ (case mlr of Some s \<Rightarrow> [(3/10, s)] | None \<Rightarrow> [])
                    @ (case au of Some s \<Rightarrow> [(1/10, s)] | None \<Rightarrow> []);
          total = sum_list (map fst present)
      in sum_list (map (\<lambda>(w, s). (w / total) * s) present))"

text \<open>The fusion of the code on the same four optional layer scores.\<close>

definition layer_fuse :: "real option \<Rightarrow> real option \<Rightarrow> real option \<Rightarrow> real option \<Rightarrow> real" where
  "layer_fuse kw bh mlr au = fuse (opt_list kw @ opt_list bh @ opt_list mlr @ opt_list au)"

text \<open>The transcript of the specification's example, and two further turns.\<close>

definition kyc_transcript :: string where
  "kyc_transcript = ''Sir, your KYC has expired. Give me your card number, CVV, and OTP now''"

definition steady_transcript :: string where
  "steady_transcript = ''otp pin cvv must immediately now hurry''"

definition loud_transcript :: string where
  "loud_transcript = ''otp pin cvv upi must immediately now hurry''"

text \<open>Features of a loud, agitated chunk.\<close>

definition loud_features :: features where
  "loud_features = [(''duration'', 3/100), (''rms_energy'', 6/10), (''zero_crossing_rate'', 2/10)]"

text \<open>One turn of a monitored call with the steady transcript, at the default settings.\<close>

definition steady_turn :: "call_contexts \<Rightarrow> analysis \<times> call_contexts" where
  "steady_turn ctxs =
     analyze_realtime default_settings None ctxs ''call-1'' (Some steady_transcript) None"

section \<open>Evaluation lemmas\<close>

lemma kyc_keyword:
  "keyword_analyze SCAM_KEYWORDS kyc_transcript =
     \<lparr>kw_score = 4/10, kw_matched = [''CVV'', ''OTP''],
      kw_indicators = [''financial_keywords_detected'']\<rparr>"
  unfolding kyc_transcript_def by code_simp

lemma kyc_behavior:
  "analyze_behavior kyc_transcript = \<lparr>bh_score = 15/100, bh_flags = [''high_pressure'']\<rparr>"
  unfolding kyc_transcript_def by code_simp

lemma steady_keyword:
  "keyword_analyze SCAM_KEYWORDS steady_transcript =
     \<lparr>kw_score = 6/10, kw_matched = [''otp'', ''pin'', ''cvv''],
      kw_indicators = [''financial_keywords_detected'']\<rparr>"
  unfolding steady_transcript_def by code_simp

lemma steady_behavior:
  "analyze_behavior steady_transcript = \<lparr>bh_score = 6/10, bh_flags = [''high_pressure'']\<rparr>"
  unfolding steady_transcript_def by code_simp

lemma loud_keyword:
  "keyword_analyze SCAM_KEYWORDS loud_transcript =
     \<lparr>kw_score = 8/10, kw_matched = [''otp'', ''pin'', ''cvv'', ''upi''],
      kw_indicators = [''financial_keywords_detected'']\<rparr>"
  unfolding loud_transcript_def by code_simp

lemma loud_behavior:
  "analyze_behavior loud_transcript = \<lparr>bh_score = 6/10, bh_flags = [''high_pressure'']\<rparr>"
  unfolding loud_transcript_def by code_simp

lemma kyc_nonempty: "kyc_transcript \<noteq> []"
  by (simp add: kyc_transcript_def)

lemma steady_nonempty: "steady_transcript \<noteq> []"
  by (simp add: steady_transcript_def)

lemma loud_nonempty: "loud_transcript \<noteq> []"
  by (simp add: loud_transcript_def)

lemma fuse1: "fuse [a] = a"
  by (simp add: fuse_def)

lemma fuse2: "fuse [a, b] = (2 * a + b) / 3"
  by (simp add: fuse_def field_simps)

lemma fuse3: "fuse [a, b, c] = (4 * a + 2 * b + 3 * c) / 9"
  by (simp add: fuse_def field_simps)

lemma fuse4: "fuse [a, b, c, d] = (4 * a + 2 * b + 3 * c + d) / 10"
  by (simp add: fuse_def field_simps)

lemma round3_simps:
  "round3 0 = 0" "round3 (1/2) = 1/2" "round3 1 = 1" "round3 (19/60) = 317/1000"
  "round3 (3/5) = 3/5" "round3 (97/180) = 539/1000" "round3 (11/15) = 733/1000"
  by (simp_all add: round3_def round_half_even_def Let_def)

text \<open>The analysis of a non-empty transcript with no classifier loaded and no audio features.\<close>

lemma analyze_unloaded_text_only:
  assumes "t \<noteq> []"
  shows "analyze st None (Some t) None =
    (let k = keyword_analyze SCAM_KEYWORDS t; b = analyze_behavior t;
         score = (2 * kw_score k + bh_score b) / 3
     in \<lparr>threat_score = round3 score, threat_level = get_threat_level st score,
         confidence = 1, indicators = remdups (kw_indicators k),
         keywords_matched = remdups (kw_matched k), behavioral_flags = remdups (bh_flags b),
         recommended_action = get_recommended_action st score (get_threat_level st score),
         escalation_detected = False\<rparr>)"
  using assms
  by (simp add: analyze_def keyword_layer_def behavior_layer_def ml_layer_def audio_layer_def
      truthy_def opt_list_def fuse2 Let_def round3_simps)

lemma steady_analysis:
  "analyze default_settings None (Some steady_transcript) None =
     \<lparr>threat_score = 6/10, threat_level = High, confidence = 1,
      indicators = [''financial_keywords_detected''],
      keywords_matched = [''otp'', ''pin'', ''cvv''], behavioral_flags = [''high_pressure''],
      recommended_action = AlertUser, escalation_detected = False\<rparr>"
  by (simp add: analyze_unloaded_text_only [OF steady_nonempty] steady_keyword steady_behavior
      Let_def round3_simps get_threat_level_def get_recommended_action_def default_settings_def)

section \<open>Results about the tier mapping\<close>

text \<open>
  C1 (as stated): the tier is safe below low, low on [low, medium), medium on [medium, high),
  and high at the high threshold itself. The code disagrees at the default cut points
  0.3 / 0.6 / 0.85: a score of 0.2 (below low) is tiered low, a score of 0.3 (equal to low)
  is tiered medium, a score of 0.6 is tiered high, and a score equal to the high threshold
  is tiered critical.
\<close>

theorem C1_tier_counterexample:
  "spec_tier default_settings (85/100) = High
   \<and> get_threat_level default_settings (85/100) = Critical
   \<and> spec_tier default_settings (2/10) = Safe
   \<and> get_threat_level default_settings (2/10) = Low
   \<and> spec_tier default_settings (3/10) = Low
   \<and> get_threat_level default_settings (3/10) = Medium
   \<and> spec_tier default_settings (6/10) = Medium
   \<and> get_threat_level default_settings (6/10) = High"
  by (simp add: spec_tier_def get_threat_level_def default_settings_def)

text \<open>
  C1 (amended): for cut points low < medium < high, the tier assigned by the scorer is
  critical when the score is at or above high; high on [medium, high); medium on
  [low, medium); low when the score is below low and strictly above the fixed constant 0.1;
  and safe when the score is below low and at most 0.1.
\<close>

theorem C1_tier_mapping:
  assumes "threat_threshold_low st < threat_threshold_medium st"
    and "threat_threshold_medium st < threat_threshold_high st"
  shows "(threat_threshold_high st \<le> s \<longrightarrow> get_threat_level st s = Critical)
    \<and> (threat_threshold_medium st \<le> s \<and> s < threat_threshold_high st
          \<longrightarrow> get_threat_level st s = High)
    \<and> (threat_threshold_low st \<le> s \<and> s < threat_threshold_medium st
          \<longrightarrow> get_threat_level st s = Medium)
    \<and> (s < threat_threshold_low st \<and> 1/10 < s \<longrightarrow> get_threat_level st s = Low)
    \<and> (s < threat_threshold_low st \<and> s \<le> 1/10 \<longrightarrow> get_threat_level st s = Safe)"
  using assms by (auto simp: get_threat_level_def)

theorem C1_tier_mapping_witness:
  "threat_threshold_low default_settings < threat_threshold_medium default_settings
   \<and> threat_threshold_medium default_settings < threat_threshold_high default_settings
   \<and> get_threat_level default_settings (9/10) = Critical
   \<and> get_threat_level default_settings (7/10) = High
   \<and> get_threat_level default_settings (4/10) = Medium
   \<and> get_threat_level default_settings (2/10) = Low
   \<and> get_threat_level default_settings (5/100) = Safe"
proof -
  have lm: "threat_threshold_low default_settings < threat_threshold_medium default_settings"
    by (simp add: default_settings_def)
  have mh: "threat_threshold_medium default_settings < threat_threshold_high default_settings"
    by (simp add: default_settings_def)
  have "get_threat_level default_settings (9/10) = Critical"
    using C1_tier_mapping [OF lm mh, of "9/10"] by (simp add: default_settings_def)
  moreover have "get_threat_level default_settings (7/10) = High"
    using C1_tier_mapping [OF lm mh, of "7/10"] by (simp add: default_settings_def)
  moreover have "get_threat_level default_settings (4/10) = Medium"
    using C1_tier_mapping [OF lm mh, of "4/10"] by (simp add: default_settings_def)
  moreover have "get_threat_level default_settings (2/10) = Low"
    using C1_tier_mapping [OF lm mh, of "2/10"] by (simp add: default_settings_def)
  moreover have "get_threat_level default_settings (5/100) = Safe"
    using C1_tier_mapping [OF lm mh, of "5/100"] by (simp add: default_settings_def)
  ultimately show ?thesis using lm mh by simp
qed

section \<open>Results about the scorer\<close>

text \<open>
  C8 (as stated): on the transcript "Sir, your KYC has expired. Give me your card number, CVV,
  and OTP now", with no classifier and no audio features, the keyword layer fires the
  urgency category, the multiple-category bonus applies and the tier is high or critical.
  None of the three holds on the code: no keyword of the urgency list occurs in the
  transcript.
\<close>

theorem C8_kyc_example_counterexample:
  "\<not> (''urgent_keywords_detected''
        \<in> set (indicators (analyze default_settings None (Some kyc_transcript) None))
      \<and> ''multiple_threat_categories''
        \<in> set (indicators (analyze default_settings None (Some kyc_transcript) None))
      \<and> threat_level (analyze default_settings None (Some kyc_transcript) None)
        \<in> {High, Critical})"
  by (simp add: analyze_unloaded_text_only [OF kyc_nonempty] kyc_keyword kyc_behavior Let_def)

text \<open>
  C8 (amended): on that transcript, with no classifier and no audio features, the keyword
  layer fires the financial-request category only (matches CVV and OTP, keyword score 0.4),
  no multiple-category bonus is applied and no \<^verbatim>\<open>multiple_threat_categories\<close> indicator is
  emitted; the behavioral layer flags high pressure; the fused score is 0.317 and, at the
  default thresholds, the tier is medium with action increase-monitoring.
\<close>

theorem C8_kyc_example:
  "keyword_analyze SCAM_KEYWORDS kyc_transcript =
     \<lparr>kw_score = 4/10, kw_matched = [''CVV'', ''OTP''],
      kw_indicators = [''financial_keywords_detected'']\<rparr>
   \<and> analyze default_settings None (Some kyc_transcript) None =
     \<lparr>threat_score = 317/1000, threat_level = Medium, confidence = 1,
      indicators = [''financial_keywords_detected''],
      keywords_matched = [''CVV'', ''OTP''], behavioral_flags = [''high_pressure''],
      recommended_action = IncreaseMonitoring, escalation_detected = False\<rparr>"
  by (simp add: analyze_unloaded_text_only [OF kyc_nonempty] kyc_keyword kyc_behavior Let_def
      round3_simps get_threat_level_def get_recommended_action_def default_settings_def)

text \<open>
  C10: with no transcript (\<^verbatim>\<open>None\<close> or the empty string) and no audio features (\<^verbatim>\<open>None\<close> or an
  empty dictionary), whatever classifier is loaded, the analyzer returns score 0.0, tier safe,
  action continue-monitoring, confidence 0.5 and three empty lists. The thresholds are taken
  positive, as every configuration with cut points in (0, 1] is.
\<close>

theorem C10_no_layers:
  assumes "0 < threat_threshold_low st" and "0 < threat_threshold_medium st"
    and "0 < threat_threshold_high st"
    and "\<not> truthy transcript" and "\<not> truthy audio_features"
  shows "analyze st ml transcript audio_features =
     \<lparr>threat_score = 0, threat_level = Safe, confidence = 5/10, indicators = [],
      keywords_matched = [], behavioral_flags = [],
      recommended_action = ContinueMonitoring, escalation_detected = False\<rparr>"
  using assms
  by (simp add: analyze_def keyword_layer_def behavior_layer_def ml_layer_def audio_layer_def
      opt_list_def fuse_def Let_def round3_simps get_threat_level_def
      get_recommended_action_def split: option.splits)

theorem C10_no_layers_witness:
  "0 < threat_threshold_low default_settings \<and> 0 < threat_threshold_medium default_settings
   \<and> 0 < threat_threshold_high default_settings
   \<and> \<not> truthy (None :: string option) \<and> \<not> truthy (Some [] :: features option)
   \<and> analyze default_settings None None (Some []) =
     \<lparr>threat_score = 0, threat_level = Safe, confidence = 5/10, indicators = [],
      keywords_matched = [], behavioral_flags = [],
      recommended_action = ContinueMonitoring, escalation_detected = False\<rparr>"
proof -
  have l: "0 < threat_threshold_low default_settings"
    and m: "0 < threat_threshold_medium default_settings"
    and h: "0 < threat_threshold_high default_settings"
    by (simp_all add: default_settings_def)
  have t: "\<not> truthy (None :: string option)" and a: "\<not> truthy (Some [] :: features option)"
    by (simp_all add: truthy_def)
  show ?thesis
    using l m h t a C10_no_layers [OF l m h t a, of None] by simp
qed

end
